theory Spec2Isabelle
  imports Main "HOL-Library.Word"
begin

section \<open>The JNI binding of the WeText processor (wetext\_jni.cc)\<close>

text \<open>
  The binding exposes five entry points to Java.  Each one marshals managed strings
  into UTF character buffers, calls one function of the native C API
  (processor/wetext\_processor\_c\_api.h) on an opaque session handle, marshals the
  result back and frees the native string.  The model threads a \<open>world\<close> through every
  call: the state of the native engine, and the sequence of boundary events the call
  has produced so far (buffer acquisitions and releases, managed strings created,
  calls into the native engine).

  A \<open>jlong\<close> is a 64-bit integer; a session handle is the pointer reinterpreted as a
  \<open>jlong\<close>, and the null handle is 0.  A managed string is given by its characters.
  A \<open>const char *\<close> that may be null is a \<open>string option\<close>, with \<open>None\<close> for
  \<open>nullptr\<close>.  The JNI environment's own functions are modelled as succeeding on the
  non-null managed strings the Java wrapper passes.
\<close>

type_synonym jlong = "64 word"
type_synonym jstring = string

datatype native_call =
    Create_processor string string
  | Destroy_processor jlong
  | Normalize jlong string
  | Tag jlong string
  | Verbalize jlong string
  | Free_string string

datatype event =
    UTF_acquired jstring string
  | UTF_released jstring string
  | String_created string
  | Native native_call

text \<open>
  The C API is declared in a header that the binding includes; its functions are taken
  as a parameter, each one a transformer of the engine's state \<open>'e\<close>.
\<close>

record 'e c_api =
  wetext_create_processor :: "'e \<Rightarrow> string \<Rightarrow> string \<Rightarrow> jlong \<times> 'e"
  wetext_destroy_processor :: "'e \<Rightarrow> jlong \<Rightarrow> 'e"
  wetext_normalize :: "'e \<Rightarrow> jlong \<Rightarrow> string \<Rightarrow> string option \<times> 'e"
  wetext_tag :: "'e \<Rightarrow> jlong \<Rightarrow> string \<Rightarrow> string option \<times> 'e"
  wetext_verbalize :: "'e \<Rightarrow> jlong \<Rightarrow> string \<Rightarrow> string option \<times> 'e"
  wetext_free_string :: "'e \<Rightarrow> string \<Rightarrow> 'e"

record 'e world =
  engine :: 'e
  trace :: "event list"

definition emit :: "event \<Rightarrow> 'e world \<Rightarrow> 'e world" where
  "emit ev w = w\<lparr>trace := trace w @ [ev]\<rparr>"

subsection \<open>The functions of the JNI environment\<close>

definition GetStringUTFChars :: "jstring \<Rightarrow> 'e world \<Rightarrow> string \<times> 'e world" where
  "GetStringUTFChars s w = (s, emit (UTF_acquired s s) w)"

definition ReleaseStringUTFChars :: "jstring \<Rightarrow> string \<Rightarrow> 'e world \<Rightarrow> 'e world" where
  "ReleaseStringUTFChars s chars w = emit (UTF_released s chars) w"

definition NewStringUTF :: "string \<Rightarrow> 'e world \<Rightarrow> jstring \<times> 'e world" where
  "NewStringUTF chars w = (chars, emit (String_created chars) w)"

subsection \<open>Calls into the native engine\<close>

definition call_create_processor ::
  "'e c_api \<Rightarrow> string \<Rightarrow> string \<Rightarrow> 'e world \<Rightarrow> jlong \<times> 'e world" where
  "call_create_processor api tagger verbalizer w =
     (let (handle, e) = wetext_create_processor api (engine w) tagger verbalizer
      in (handle, emit (Native (Create_processor tagger verbalizer)) (w\<lparr>engine := e\<rparr>)))"

definition call_destroy_processor :: "'e c_api \<Rightarrow> jlong \<Rightarrow> 'e world \<Rightarrow> 'e world" where
  "call_destroy_processor api handle w =
     emit (Native (Destroy_processor handle))
       (w\<lparr>engine := wetext_destroy_processor api (engine w) handle\<rparr>)"

definition call_normalize ::
  "'e c_api \<Rightarrow> jlong \<Rightarrow> string \<Rightarrow> 'e world \<Rightarrow> string option \<times> 'e world" where
  "call_normalize api handle text w =
     (let (result, e) = wetext_normalize api (engine w) handle text
      in (result, emit (Native (Normalize handle text)) (w\<lparr>engine := e\<rparr>)))"

definition call_tag ::
  "'e c_api \<Rightarrow> jlong \<Rightarrow> string \<Rightarrow> 'e world \<Rightarrow> string option \<times> 'e world" where
  "call_tag api handle text w =
     (let (result, e) = wetext_tag api (engine w) handle text
      in (result, emit (Native (Tag handle text)) (w\<lparr>engine := e\<rparr>)))"

definition call_verbalize ::
  "'e c_api \<Rightarrow> jlong \<Rightarrow> string \<Rightarrow> 'e world \<Rightarrow> string option \<times> 'e world" where
  "call_verbalize api handle text w =
     (let (result, e) = wetext_verbalize api (engine w) handle text
      in (result, emit (Native (Verbalize handle text)) (w\<lparr>engine := e\<rparr>)))"

definition call_free_string :: "'e c_api \<Rightarrow> string \<Rightarrow> 'e world \<Rightarrow> 'e world" where
  "call_free_string api s w =
     emit (Native (Free_string s)) (w\<lparr>engine := wetext_free_string api (engine w) s\<rparr>)"

subsection \<open>The five entry points\<close>

text \<open>\<open>Java_com_wetext_WetextProcessor_nativeCreateProcessor\<close>\<close>

definition nativeCreateProcessor ::
  "'e c_api \<Rightarrow> jstring \<Rightarrow> jstring \<Rightarrow> 'e world \<Rightarrow> jlong \<times> 'e world" where
  "nativeCreateProcessor api taggerPath verbalizerPath w =
     (let (tagger, w1) = GetStringUTFChars taggerPath w;
          (verbalizer, w2) = GetStringUTFChars verbalizerPath w1;
          (handle, w3) = call_create_processor api tagger verbalizer w2;
          w4 = ReleaseStringUTFChars taggerPath tagger w3;
          w5 = ReleaseStringUTFChars verbalizerPath verbalizer w4
      in (handle, w5))"

text \<open>\<open>Java_com_wetext_WetextProcessor_nativeDestroyProcessor\<close>\<close>

definition nativeDestroyProcessor :: "'e c_api \<Rightarrow> jlong \<Rightarrow> 'e world \<Rightarrow> 'e world" where
  "nativeDestroyProcessor api handle w =
     (if handle \<noteq> 0 then call_destroy_processor api handle w else w)"

text \<open>\<open>Java_com_wetext_WetextProcessor_nativeNormalize\<close>\<close>

definition nativeNormalize ::
  "'e c_api \<Rightarrow> jlong \<Rightarrow> jstring \<Rightarrow> 'e world \<Rightarrow> jstring \<times> 'e world" where
  "nativeNormalize api handle input w =
     (if handle = 0 then NewStringUTF '''' w
      else
        let (text, w1) = GetStringUTFChars input w;
            (result, w2) = call_normalize api handle text w1;
            w3 = ReleaseStringUTFChars input text w2;
            (jresult, w4) = NewStringUTF (case result of Some r \<Rightarrow> r | None \<Rightarrow> '''') w3;
            w5 = (case result of Some r \<Rightarrow> call_free_string api r w4 | None \<Rightarrow> w4)
        in (jresult, w5))"

text \<open>\<open>Java_com_wetext_WetextProcessor_nativeTag\<close>\<close>

definition nativeTag ::
  "'e c_api \<Rightarrow> jlong \<Rightarrow> jstring \<Rightarrow> 'e world \<Rightarrow> jstring \<times> 'e world" where
  "nativeTag api handle input w =
     (if handle = 0 then NewStringUTF '''' w
      else
        let (text, w1) = GetStringUTFChars input w;
            (result, w2) = call_tag api handle text w1;
            w3 = ReleaseStringUTFChars input text w2;
            (jresult, w4) = NewStringUTF (case result of Some r \<Rightarrow> r | None \<Rightarrow> '''') w3;
            w5 = (case result of Some r \<Rightarrow> call_free_string api r w4 | None \<Rightarrow> w4)
        in (jresult, w5))"

text \<open>\<open>Java_com_wetext_WetextProcessor_nativeVerbalize\<close>\<close>

definition nativeVerbalize ::
  "'e c_api \<Rightarrow> jlong \<Rightarrow> jstring \<Rightarrow> 'e world \<Rightarrow> jstring \<times> 'e world" where
  "nativeVerbalize api handle input w =
     (if handle = 0 then NewStringUTF '''' w
      else
        let (text, w1) = GetStringUTFChars input w;
            (result, w2) = call_verbalize api handle text w1;
            w3 = ReleaseStringUTFChars input text w2;
            (jresult, w4) = NewStringUTF (case result of Some r \<Rightarrow> r | None \<Rightarrow> '''') w3;
            w5 = (case result of Some r \<Rightarrow> call_free_string api r w4 | None \<Rightarrow> w4)
        in (jresult, w5))"

subsection \<open>Reading a trace\<close>

text \<open>The events a call has added to the trace of the world it started from.\<close>

definition new_events :: "'e world \<Rightarrow> 'e world \<Rightarrow> event list" where
  "new_events w w' = drop (length (trace w)) (trace w')"

fun native_calls :: "event list \<Rightarrow> native_call list" where
  "native_calls [] = []"
| "native_calls (Native c # evs) = c # native_calls evs"
| "native_calls (_ # evs) = native_calls evs"

fun freed_strings :: "event list \<Rightarrow> string list" where
  "freed_strings [] = []"
| "freed_strings (Native (Free_string s) # evs) = s # freed_strings evs"
| "freed_strings (_ # evs) = freed_strings evs"

text \<open>
  \<open>utf_held evs held\<close> replays a trace against the list of character buffers that are
  acquired and not yet released.  A release of a buffer that is not held fails.
\<close>

fun utf_held :: "event list \<Rightarrow> (jstring \<times> string) list \<Rightarrow> (jstring \<times> string) list option" where
  "utf_held [] held = Some held"
| "utf_held (UTF_acquired s chars # evs) held = utf_held evs ((s, chars) # held)"
| "utf_held (UTF_released s chars # evs) held =
     (if (s, chars) \<in> set held then utf_held evs (remove1 (s, chars) held) else None)"
| "utf_held (_ # evs) held = utf_held evs held"

definition utf_paired :: "event list \<Rightarrow> bool" where
  "utf_paired evs = (utf_held evs [] = Some [])"

text \<open>
  \<open>copied_before_free evs copied\<close>: every native string that the trace frees has been
  copied into a managed string earlier in the trace (or is in \<open>copied\<close> already).
\<close>

fun copied_before_free :: "event list \<Rightarrow> string list \<Rightarrow> bool" where
  "copied_before_free [] copied = True"
| "copied_before_free (String_created s # evs) copied = copied_before_free evs (s # copied)"
| "copied_before_free (Native (Free_string s) # evs) copied =
     (s \<in> set copied \<and> copied_before_free evs copied)"
| "copied_before_free (_ # evs) copied = copied_before_free evs copied"

text \<open>
  A small engine for exercising the binding: its state counts the native strings handed
  out and not yet freed.  Handle 1 is its only live session, on which every operation
  returns a copy of its input; on any other handle the operations return \<open>nullptr\<close>.
  Creation fails (null handle) when the tagger path is empty.
\<close>

definition sample_api :: "nat c_api" where
  "sample_api =
     \<lparr>wetext_create_processor = (\<lambda>n t v. (if t = [] then 0 else 1, n)),
      wetext_destroy_processor = (\<lambda>n h. n),
      wetext_normalize = (\<lambda>n h txt. if h = 1 then (Some txt, Suc n) else (None, n)),
      wetext_tag = (\<lambda>n h txt. if h = 1 then (Some txt, Suc n) else (None, n)),
      wetext_verbalize = (\<lambda>n h txt. if h = 1 then (Some txt, Suc n) else (None, n)),
      wetext_free_string = (\<lambda>n s. n - 1)\<rparr>"

definition sample_world :: "nat world" where
  "sample_world = \<lparr>engine = 0, trace = []\<rparr>"

section \<open>The native engine behind the C API\<close>

text \<open>
  The engine (the tagger, the verbalizer, the pipeline, the resource loader and the
  session registry behind \<open>wetext_processor_c_api.h\<close>) is not part of the binding's
  source file.  The definitions of this section follow the specification's description
  of it.
\<close>

subsection \<open>Data model\<close>

type_synonym fields = "(string \<times> string) list"

text \<open>
  Modelled from the spec: the TaggedSpan of the engine's data model, "a contiguous
  region of input text annotated with a semantic category and extracted field values";
  an untagged span is a region passed through verbatim.
\<close>

datatype span =
    Tagged string string fields
  | Untagged string

fun span_text :: "span \<Rightarrow> string" where
  "span_text (Tagged cat txt f) = txt"
| "span_text (Untagged txt) = txt"

text \<open>
  Modelled from the spec: a rule of the tagger grammar, "pattern \<rightarrow> classification".
  The pattern, applied to the text that remains at the current position, answers how
  many leading characters it matches and the field values it extracts, or that it
  does not match here.  The grammar is the list of its rules, highest priority first.
\<close>

record tag_rule =
  category :: string
  pattern :: "string \<Rightarrow> (nat \<times> fields) option"

text \<open>
  Modelled from the spec: the verbalizer grammar, which gives the rewrite rule of a
  category; a rule turns a span's extracted fields into the replacement text.
\<close>

type_synonym verbalizer_rules = "(string \<times> (fields \<Rightarrow> string)) list"

text \<open>
  Modelled from the spec: the ProcessorSession, which "owns exactly one tagger grammar
  reference and one verbalizer grammar reference".
\<close>

record session =
  tagger_grammar :: "tag_rule list"
  verbalizer_grammar :: verbalizer_rules

subsection \<open>Tagger\<close>

text \<open>
  Modelled from the spec: one rule tried at one position of the tagger.  A match is a
  non-empty prefix of the remaining text; a pattern that answers with no characters,
  or with more than remain, does not match.
\<close>

definition rule_match :: "tag_rule \<Rightarrow> string \<Rightarrow> (nat \<times> string \<times> fields) option" where
  "rule_match r s =
     (case pattern r s of
        None \<Rightarrow> None
      | Some (n, f) \<Rightarrow> if 0 < n \<and> n \<le> length s then Some (n, category r, f) else None)"

text \<open>
  Modelled from the spec: the tagger's choice "the longest/highest-priority matching
  grammar rule at each position (classic maximal-munch tokenization policy)": the
  longest match wins, and among matches of the same length the rule of higher priority.
\<close>

fun best_match :: "tag_rule list \<Rightarrow> string \<Rightarrow> (nat \<times> string \<times> fields) option" where
  "best_match [] s = None"
| "best_match (r # rs) s =
     (case rule_match r s of
        None \<Rightarrow> best_match rs s
      | Some (n, c, f) \<Rightarrow>
          (case best_match rs s of
             None \<Rightarrow> Some (n, c, f)
           | Some (n', c', f') \<Rightarrow> if n < n' then Some (n', c', f') else Some (n, c, f)))"

text \<open>
  Modelled from the spec: the Tagger, \<open>tag(grammar, inputText) -> sequence<TaggedSpan>\<close>,
  which "must scan inputText left to right, applying the longest/highest-priority
  matching grammar rule at each position, emitting a TaggedSpan for matched categories
  and passing through unmatched characters verbatim as untagged spans".
\<close>

fun tag :: "tag_rule list \<Rightarrow> string \<Rightarrow> span list" where
  "tag G [] = []"
| "tag G (c # cs) =
     (case best_match G (c # cs) of
        None \<Rightarrow> Untagged [c] # tag G cs
      | Some (n, cat, f) \<Rightarrow>
          Tagged cat (c # take (n - 1) cs) f # tag G (drop (n - 1) cs))"

text \<open>
  Modelled from the spec: "no grammar rule matches anywhere" in a text: at every
  position, every rule of the tagger grammar fails to match.
\<close>

fun no_rule_here :: "tag_rule list \<Rightarrow> string \<Rightarrow> bool" where
  "no_rule_here [] s = True"
| "no_rule_here (r # rs) s = (rule_match r s = None \<and> no_rule_here rs s)"

fun no_rule_matches :: "tag_rule list \<Rightarrow> string \<Rightarrow> bool" where
  "no_rule_matches G [] = True"
| "no_rule_matches G (c # cs) = (no_rule_here G (c # cs) \<and> no_rule_matches G cs)"

subsection \<open>Verbalizer\<close>

text \<open>
  Modelled from the spec: the Verbalizer on one span: it "looks up the applicable
  rewrite rule by category and applies it to the span's extracted fields, producing a
  replacement substring; untagged spans pass through unchanged"; a tagged span whose
  category has no rule "is passed through literally rather than dropped".
\<close>

fun verbalize_span :: "verbalizer_rules \<Rightarrow> span \<Rightarrow> string" where
  "verbalize_span V (Untagged txt) = txt"
| "verbalize_span V (Tagged cat txt f) =
     (case map_of V cat of Some rewrite \<Rightarrow> rewrite f | None \<Rightarrow> txt)"

text \<open>
  Modelled from the spec: the Verbalizer, \<open>verbalize(grammar, taggedSpans) -> string\<close>,
  which "concatenates results in original document order".
\<close>

definition verbalize :: "verbalizer_rules \<Rightarrow> span list \<Rightarrow> string" where
  "verbalize V spans = concat (map (verbalize_span V) spans)"

subsection \<open>Normalization pipeline\<close>

text \<open>
  Modelled from the spec: the Normalization Pipeline, which "orchestrates tagging then
  verbalization to produce a fully normalized string from raw input text".
\<close>

definition normalize_text :: "tag_rule list \<times> verbalizer_rules \<Rightarrow> string \<Rightarrow> string" where
  "normalize_text grammars inputText =
     (let spans = tag (fst grammars) inputText in verbalize (snd grammars) spans)"

subsection \<open>Resource loader\<close>

text \<open>
  Modelled from the spec: the ResourceError of the Resource Loader, raised when "the
  path does not exist, is unreadable, or fails to parse as a valid grammar/model file".
\<close>

datatype ResourceError = Not_found | Unreadable | Malformed

datatype grammar_file = Unreadable_file | Readable string

text \<open>
  Modelled from the spec: what the engine reads from its surroundings: the filesystem
  (no entry: the path does not exist), the parsers of the two grammar file formats,
  and the serialized form of a span sequence that \<open>tag\<close> returns and \<open>verbalize\<close>
  reads.  The spec leaves the formats open; they are parameters.
\<close>

record resources =
  files :: "string \<Rightarrow> grammar_file option"
  parse_tagger :: "string \<Rightarrow> tag_rule list option"
  parse_verbalizer :: "string \<Rightarrow> verbalizer_rules option"
  serialize :: "span list \<Rightarrow> string"
  deserialize :: "string \<Rightarrow> span list"

text \<open>Modelled from the spec: the Resource Loader, \<open>load(path) -> Grammar\<close>.\<close>

definition load ::
  "(string \<Rightarrow> grammar_file option) \<Rightarrow> (string \<Rightarrow> 'g option) \<Rightarrow> string \<Rightarrow> ResourceError + 'g" where
  "load fs parse path =
     (case fs path of
        None \<Rightarrow> Inl Not_found
      | Some Unreadable_file \<Rightarrow> Inl Unreadable
      | Some (Readable content) \<Rightarrow>
          (case parse content of None \<Rightarrow> Inl Malformed | Some g \<Rightarrow> Inr g))"

subsection \<open>Processor handle (session)\<close>

text \<open>
  Modelled from the spec: the registry of live sessions behind the opaque handles, "an
  arena of sessions addressed by index": handle \<open>i + 1\<close> names slot \<open>i\<close>, a destroyed
  session leaves its slot empty, and 0 is the null handle.
\<close>

type_synonym registry = "session option list"

definition session_of :: "registry \<Rightarrow> jlong \<Rightarrow> session option" where
  "session_of reg handle =
     (if handle = 0 then None
      else if unat handle \<le> length reg then reg ! (unat handle - 1)
      else None)"

text \<open>
  Modelled from the spec: the registration of a newly created session under a fresh
  handle; a registry with no handle left yields the null handle.
\<close>

definition register :: "registry \<Rightarrow> session \<Rightarrow> jlong \<times> registry" where
  "register reg s =
     (if Suc (length reg) < 2 ^ 64 then (of_nat (Suc (length reg)), reg @ [Some s])
      else (0, reg))"

text \<open>
  Modelled from the spec: \<open>create(taggerPath, verbalizerPath) -> SessionHandle | Null\<close>,
  which "loads both grammars via Resource Loader; on any load failure returns a
  null/invalid handle rather than raising".
\<close>

definition create_processor ::
  "resources \<Rightarrow> registry \<Rightarrow> string \<Rightarrow> string \<Rightarrow> jlong \<times> registry" where
  "create_processor rs reg taggerPath verbalizerPath =
     (case load (files rs) (parse_tagger rs) taggerPath of
        Inl err \<Rightarrow> (0, reg)
      | Inr tg \<Rightarrow>
          (case load (files rs) (parse_verbalizer rs) verbalizerPath of
             Inl err \<Rightarrow> (0, reg)
           | Inr vg \<Rightarrow> register reg \<lparr>tagger_grammar = tg, verbalizer_grammar = vg\<rparr>))"

text \<open>
  Modelled from the spec: \<open>destroy(handle)\<close>, which releases the session; on a null,
  never-created or already-destroyed handle it is a no-op.
\<close>

definition destroy_processor :: "registry \<Rightarrow> jlong \<Rightarrow> registry" where
  "destroy_processor reg handle =
     (case session_of reg handle of
        None \<Rightarrow> reg
      | Some s \<Rightarrow> reg[unat handle - 1 := None])"

text \<open>
  Modelled from the spec: \<open>normalize(handle, text) -> string\<close>, the "full pipeline (tag
  then verbalize). If handle is null/invalid, returns an empty string rather than
  failing".
\<close>

definition processor_normalize :: "registry \<Rightarrow> jlong \<Rightarrow> string \<Rightarrow> string" where
  "processor_normalize reg handle txt =
     (case session_of reg handle of
        None \<Rightarrow> ''''
      | Some s \<Rightarrow> normalize_text (tagger_grammar s, verbalizer_grammar s) txt)"

text \<open>
  Modelled from the spec: \<open>tag(handle, text) -> string\<close>, which "runs only the Tagger
  and returns a serialized representation of the tagged spans", with the same
  null-handle contract.
\<close>

definition processor_tag :: "resources \<Rightarrow> registry \<Rightarrow> jlong \<Rightarrow> string \<Rightarrow> string" where
  "processor_tag rs reg handle txt =
     (case session_of reg handle of
        None \<Rightarrow> ''''
      | Some s \<Rightarrow> serialize rs (tag (tagger_grammar s) txt))"

text \<open>
  Modelled from the spec: \<open>verbalize(handle, text) -> string\<close>, which "runs only the
  Verbalizer, interpreting text as an already-tagged intermediate representation",
  with the same null-handle contract.
\<close>

definition processor_verbalize :: "resources \<Rightarrow> registry \<Rightarrow> jlong \<Rightarrow> string \<Rightarrow> string" where
  "processor_verbalize rs reg handle txt =
     (case session_of reg handle of
        None \<Rightarrow> ''''
      | Some s \<Rightarrow> verbalize (verbalizer_grammar s) (deserialize rs txt))"

text \<open>
  Modelled from the spec: the C API over the engine.  The per-call operations keep no
  state between calls, so they return the registry as they found it; releasing a
  returned string does not touch the sessions.
\<close>

definition core_api :: "resources \<Rightarrow> registry c_api" where
  "core_api rs =
     \<lparr>wetext_create_processor = create_processor rs,
      wetext_destroy_processor = destroy_processor,
      wetext_normalize = (\<lambda>reg handle txt. (Some (processor_normalize reg handle txt), reg)),
      wetext_tag = (\<lambda>reg handle txt. (Some (processor_tag rs reg handle txt), reg)),
      wetext_verbalize = (\<lambda>reg handle txt. (Some (processor_verbalize rs reg handle txt), reg)),
      wetext_free_string = (\<lambda>reg s. reg)\<rparr>"

subsection \<open>The specification's end-to-end example\<close>

text \<open>
  A tagger grammar with one rule, which recognises a date written as four digits, a
  hyphen, two digits, a hyphen and two digits, and tags it DATE with the fields year,
  month and day; and a verbalizer grammar whose DATE rule writes month/day/year.
\<close>

definition is_digit :: "char \<Rightarrow> bool" where
  "is_digit c = (c \<in> set ''0123456789'')"

definition date_pattern :: "string \<Rightarrow> (nat \<times> fields) option" where
  "date_pattern s =
     (let year = take 4 s; month = take 2 (drop 5 s); day = take 2 (drop 8 s)
      in if 10 \<le> length s \<and> list_all is_digit (year @ month @ day)
            \<and> take 1 (drop 4 s) = ''-'' \<and> take 1 (drop 7 s) = ''-''
         then Some (10, [(''year'', year), (''month'', month), (''day'', day)])
         else None)"

definition field_value :: "fields \<Rightarrow> string \<Rightarrow> string" where
  "field_value f name = (case map_of f name of Some v \<Rightarrow> v | None \<Rightarrow> '''')"

definition date_session :: session where
  "date_session =
     \<lparr>tagger_grammar = [\<lparr>category = ''DATE'', pattern = date_pattern\<rparr>],
      verbalizer_grammar =
        [(''DATE'', \<lambda>f. field_value f ''month'' @ ''/'' @ field_value f ''day'' @ ''/''
                        @ field_value f ''year'')]\<rparr>"

text \<open>
  Surroundings in which no grammar file exists, and a world whose registry holds the
  date session under handle 1.
\<close>

definition no_files :: resources where
  "no_files =
     \<lparr>files = (\<lambda>path. None),
      parse_tagger = (\<lambda>content. None),
      parse_verbalizer = (\<lambda>content. None),
      serialize = (\<lambda>spans. concat (map span_text spans)),
      deserialize = (\<lambda>txt. [Untagged txt])\<rparr>"

definition date_world :: "registry world" where
  "date_world = \<lparr>engine = [Some date_session], trace = []\<rparr>"

section \<open>Properties of the binding\<close>

lemmas jni_defs = GetStringUTFChars_def ReleaseStringUTFChars_def NewStringUTF_def

lemmas call_defs = call_create_processor_def call_destroy_processor_def call_normalize_def
  call_tag_def call_verbalize_def call_free_string_def

lemma emit_simps [simp]:
  "engine (emit ev w) = engine w"
  "trace (emit ev w) = trace w @ [ev]"
  by (simp_all add: emit_def)

lemma new_events_append [simp]: "trace w' = trace w @ evs \<Longrightarrow> new_events w w' = evs"
  by (simp add: new_events_def)

lemma new_events_same [simp]: "new_events w w = []"
  by (simp add: new_events_def)

subsection \<open>What each entry point does, path by path\<close>

lemma null_handle_normalize:
  "nativeNormalize api 0 input w = ('''', emit (String_created '''') w)"
  by (simp add: nativeNormalize_def NewStringUTF_def)

lemma null_handle_tag:
  "nativeTag api 0 input w = ('''', emit (String_created '''') w)"
  by (simp add: nativeTag_def NewStringUTF_def)

lemma null_handle_verbalize:
  "nativeVerbalize api 0 input w = ('''', emit (String_created '''') w)"
  by (simp add: nativeVerbalize_def NewStringUTF_def)

lemma normalize_some:
  "handle \<noteq> 0 \<Longrightarrow> wetext_normalize api (engine w) handle input = (Some r, e) \<Longrightarrow>
   nativeNormalize api handle input w =
     (r, w\<lparr>engine := wetext_free_string api e r,
           trace := trace w @ [UTF_acquired input input, Native (Normalize handle input),
             UTF_released input input, String_created r, Native (Free_string r)]\<rparr>)"
  by (simp add: nativeNormalize_def jni_defs call_defs emit_def)

lemma normalize_none:
  "handle \<noteq> 0 \<Longrightarrow> wetext_normalize api (engine w) handle input = (None, e) \<Longrightarrow>
   nativeNormalize api handle input w =
     ('''', w\<lparr>engine := e,
           trace := trace w @ [UTF_acquired input input, Native (Normalize handle input),
             UTF_released input input, String_created '''']\<rparr>)"
  by (simp add: nativeNormalize_def jni_defs call_defs emit_def)

lemma tag_some:
  "handle \<noteq> 0 \<Longrightarrow> wetext_tag api (engine w) handle input = (Some r, e) \<Longrightarrow>
   nativeTag api handle input w =
     (r, w\<lparr>engine := wetext_free_string api e r,
           trace := trace w @ [UTF_acquired input input, Native (Tag handle input),
             UTF_released input input, String_created r, Native (Free_string r)]\<rparr>)"
  by (simp add: nativeTag_def jni_defs call_defs emit_def)

lemma tag_none:
  "handle \<noteq> 0 \<Longrightarrow> wetext_tag api (engine w) handle input = (None, e) \<Longrightarrow>
   nativeTag api handle input w =
     ('''', w\<lparr>engine := e,
           trace := trace w @ [UTF_acquired input input, Native (Tag handle input),
             UTF_released input input, String_created '''']\<rparr>)"
  by (simp add: nativeTag_def jni_defs call_defs emit_def)

lemma verbalize_some:
  "handle \<noteq> 0 \<Longrightarrow> wetext_verbalize api (engine w) handle input = (Some r, e) \<Longrightarrow>
   nativeVerbalize api handle input w =
     (r, w\<lparr>engine := wetext_free_string api e r,
           trace := trace w @ [UTF_acquired input input, Native (Verbalize handle input),
             UTF_released input input, String_created r, Native (Free_string r)]\<rparr>)"
  by (simp add: nativeVerbalize_def jni_defs call_defs emit_def)

lemma verbalize_none:
  "handle \<noteq> 0 \<Longrightarrow> wetext_verbalize api (engine w) handle input = (None, e) \<Longrightarrow>
   nativeVerbalize api handle input w =
     ('''', w\<lparr>engine := e,
           trace := trace w @ [UTF_acquired input input, Native (Verbalize handle input),
             UTF_released input input, String_created '''']\<rparr>)"
  by (simp add: nativeVerbalize_def jni_defs call_defs emit_def)

lemma create_eq:
  "wetext_create_processor api (engine w) tp vp = (h, e) \<Longrightarrow>
   nativeCreateProcessor api tp vp w =
     (h, w\<lparr>engine := e,
           trace := trace w @ [UTF_acquired tp tp, UTF_acquired vp vp,
             Native (Create_processor tp vp), UTF_released tp tp, UTF_released vp vp]\<rparr>)"
  by (simp add: nativeCreateProcessor_def jni_defs call_defs emit_def)

lemma destroy_eq:
  "handle \<noteq> 0 \<Longrightarrow> nativeDestroyProcessor api handle w =
     w\<lparr>engine := wetext_destroy_processor api (engine w) handle,
       trace := trace w @ [Native (Destroy_processor handle)]\<rparr>"
  by (simp add: nativeDestroyProcessor_def call_defs emit_def)

lemma destroy_null: "nativeDestroyProcessor api 0 w = w"
  by (simp add: nativeDestroyProcessor_def)

text \<open>The trace readers do reject what they are meant to reject.\<close>

lemma unpaired_acquire: "\<not> utf_paired [UTF_acquired s chars]"
  by (simp add: utf_paired_def)

lemma unpaired_release: "\<not> utf_paired [UTF_released s chars]"
  by (simp add: utf_paired_def)

lemma free_without_copy: "\<not> copied_before_free [Native (Free_string s)] []"
  by simp

subsection \<open>Null handles\<close>

text \<open>
  C1.  With the null handle 0 and any input text, \<open>nativeNormalize\<close>, \<open>nativeTag\<close> and
  \<open>nativeVerbalize\<close> each return the empty string, leave the native engine's state as
  it was, and make no call into the native engine: the only event is the creation of
  the empty managed string.  This holds for every C API behind the binding.
\<close>

theorem null_handle_returns_empty:
  "fst (nativeNormalize api 0 input w) = '''' \<and>
   engine (snd (nativeNormalize api 0 input w)) = engine w \<and>
   new_events w (snd (nativeNormalize api 0 input w)) = [String_created ''''] \<and>
   native_calls (new_events w (snd (nativeNormalize api 0 input w))) = [] \<and>
   fst (nativeTag api 0 input w) = '''' \<and>
   engine (snd (nativeTag api 0 input w)) = engine w \<and>
   new_events w (snd (nativeTag api 0 input w)) = [String_created ''''] \<and>
   native_calls (new_events w (snd (nativeTag api 0 input w))) = [] \<and>
   fst (nativeVerbalize api 0 input w) = '''' \<and>
   engine (snd (nativeVerbalize api 0 input w)) = engine w \<and>
   new_events w (snd (nativeVerbalize api 0 input w)) = [String_created ''''] \<and>
   native_calls (new_events w (snd (nativeVerbalize api 0 input w))) = []"
  by (simp add: null_handle_normalize null_handle_tag null_handle_verbalize)

text \<open>
  C2.  \<open>nativeDestroyProcessor\<close> on the null handle 0 is a no-op: the world it returns is
  the world it was given.  On any handle, the calls it makes into the native engine
  are none when the handle is 0 and the one call of \<open>wetext_destroy_processor\<close> on that
  handle otherwise, so the native destroy function never receives the null handle.
\<close>

theorem destroy_null_handle_noop:
  "nativeDestroyProcessor api 0 w = w \<and>
   native_calls (new_events w (nativeDestroyProcessor api handle w)) =
     (if handle = 0 then [] else [Destroy_processor handle])"
  by (simp add: destroy_null destroy_eq)

subsection \<open>Ownership of native strings\<close>

text \<open>
  C8.  In each of \<open>nativeNormalize\<close>, \<open>nativeTag\<close> and \<open>nativeVerbalize\<close>, the strings
  passed to \<open>wetext_free_string\<close> are exactly the native result when the native call
  was made and returned a non-null string, once, and none otherwise; and every string
  freed has been copied into a managed string earlier in the same call.
\<close>

theorem native_result_freed_after_copy:
  "freed_strings (new_events w (snd (nativeNormalize api handle input w))) =
     (if handle = 0 then []
      else case fst (wetext_normalize api (engine w) handle input) of
             Some r \<Rightarrow> [r] | None \<Rightarrow> []) \<and>
   copied_before_free (new_events w (snd (nativeNormalize api handle input w))) [] \<and>
   freed_strings (new_events w (snd (nativeTag api handle input w))) =
     (if handle = 0 then []
      else case fst (wetext_tag api (engine w) handle input) of
             Some r \<Rightarrow> [r] | None \<Rightarrow> []) \<and>
   copied_before_free (new_events w (snd (nativeTag api handle input w))) [] \<and>
   freed_strings (new_events w (snd (nativeVerbalize api handle input w))) =
     (if handle = 0 then []
      else case fst (wetext_verbalize api (engine w) handle input) of
             Some r \<Rightarrow> [r] | None \<Rightarrow> []) \<and>
   copied_before_free (new_events w (snd (nativeVerbalize api handle input w))) []"
proof (cases "handle = 0")
  case True
  then show ?thesis
    by (simp add: null_handle_normalize null_handle_tag null_handle_verbalize)
next
  case False
  obtain rn en where n: "wetext_normalize api (engine w) handle input = (rn, en)"
    by (cases "wetext_normalize api (engine w) handle input")
  obtain rt et where t: "wetext_tag api (engine w) handle input = (rt, et)"
    by (cases "wetext_tag api (engine w) handle input")
  obtain rv ev where v: "wetext_verbalize api (engine w) handle input = (rv, ev)"
    by (cases "wetext_verbalize api (engine w) handle input")
  have "freed_strings (new_events w (snd (nativeNormalize api handle input w))) =
          (case rn of Some r \<Rightarrow> [r] | None \<Rightarrow> []) \<and>
        copied_before_free (new_events w (snd (nativeNormalize api handle input w))) []"
    using False n by (cases rn) (simp_all add: normalize_some normalize_none)
  moreover
  have "freed_strings (new_events w (snd (nativeTag api handle input w))) =
          (case rt of Some r \<Rightarrow> [r] | None \<Rightarrow> []) \<and>
        copied_before_free (new_events w (snd (nativeTag api handle input w))) []"
    using False t by (cases rt) (simp_all add: tag_some tag_none)
  moreover
  have "freed_strings (new_events w (snd (nativeVerbalize api handle input w))) =
          (case rv of Some r \<Rightarrow> [r] | None \<Rightarrow> []) \<and>
        copied_before_free (new_events w (snd (nativeVerbalize api handle input w))) []"
    using False v by (cases rv) (simp_all add: verbalize_some verbalize_none)
  ultimately show ?thesis
    using False n t v by simp
qed

text \<open>
  C9.  With a non-null handle, when the native \<open>wetext_normalize\<close>, \<open>wetext_tag\<close> or
  \<open>wetext_verbalize\<close> returns \<open>nullptr\<close>, the entry point returns the empty managed
  string and frees nothing.
\<close>

theorem null_result_gives_empty:
  assumes "handle \<noteq> 0"
  shows "(fst (wetext_normalize api (engine w) handle input) = None \<longrightarrow>
            fst (nativeNormalize api handle input w) = '''' \<and>
            freed_strings (new_events w (snd (nativeNormalize api handle input w))) = []) \<and>
         (fst (wetext_tag api (engine w) handle input) = None \<longrightarrow>
            fst (nativeTag api handle input w) = '''' \<and>
            freed_strings (new_events w (snd (nativeTag api handle input w))) = []) \<and>
         (fst (wetext_verbalize api (engine w) handle input) = None \<longrightarrow>
            fst (nativeVerbalize api handle input w) = '''' \<and>
            freed_strings (new_events w (snd (nativeVerbalize api handle input w))) = [])"
proof (intro conjI impI)
  assume "fst (wetext_normalize api (engine w) handle input) = None"
  then obtain e where n: "wetext_normalize api (engine w) handle input = (None, e)"
    by (cases "wetext_normalize api (engine w) handle input") simp
  show "fst (nativeNormalize api handle input w) = ''''"
    and "freed_strings (new_events w (snd (nativeNormalize api handle input w))) = []"
    using assms n by (simp_all add: normalize_none)
next
  assume "fst (wetext_tag api (engine w) handle input) = None"
  then obtain e where t: "wetext_tag api (engine w) handle input = (None, e)"
    by (cases "wetext_tag api (engine w) handle input") simp
  show "fst (nativeTag api handle input w) = ''''"
    and "freed_strings (new_events w (snd (nativeTag api handle input w))) = []"
    using assms t by (simp_all add: tag_none)
next
  assume "fst (wetext_verbalize api (engine w) handle input) = None"
  then obtain e where v: "wetext_verbalize api (engine w) handle input = (None, e)"
    by (cases "wetext_verbalize api (engine w) handle input") simp
  show "fst (nativeVerbalize api handle input w) = ''''"
    and "freed_strings (new_events w (snd (nativeVerbalize api handle input w))) = []"
    using assms v by (simp_all add: verbalize_none)
qed

theorem null_result_gives_empty_witness:
  "(2 :: jlong) \<noteq> 0 \<and>
   fst (wetext_normalize sample_api (engine sample_world) 2 ''abc'') = None \<and>
   fst (nativeNormalize sample_api 2 ''abc'' sample_world) = '''' \<and>
   freed_strings
     (new_events sample_world (snd (nativeNormalize sample_api 2 ''abc'' sample_world))) = [] \<and>
   fst (wetext_tag sample_api (engine sample_world) 2 ''abc'') = None \<and>
   fst (nativeTag sample_api 2 ''abc'' sample_world) = '''' \<and>
   freed_strings
     (new_events sample_world (snd (nativeTag sample_api 2 ''abc'' sample_world))) = [] \<and>
   fst (wetext_verbalize sample_api (engine sample_world) 2 ''abc'') = None \<and>
   fst (nativeVerbalize sample_api 2 ''abc'' sample_world) = '''' \<and>
   freed_strings
     (new_events sample_world (snd (nativeVerbalize sample_api 2 ''abc'' sample_world))) = []"
proof -
  have h: "(2 :: jlong) \<noteq> 0" by simp
  have n: "fst (wetext_normalize sample_api (engine sample_world) 2 ''abc'') = None"
    and t: "fst (wetext_tag sample_api (engine sample_world) 2 ''abc'') = None"
    and v: "fst (wetext_verbalize sample_api (engine sample_world) 2 ''abc'') = None"
    by (simp_all add: sample_api_def)
  show ?thesis
    using h n t v null_result_gives_empty [OF h, of sample_api sample_world "''abc''"]
    by simp
qed

subsection \<open>UTF character buffers\<close>

text \<open>
  C10.  In every entry point, on every path, each UTF character buffer acquired from a
  managed string is released exactly once before the entry point returns, and nothing
  is released that was not acquired: the events of the call replay to no buffer held.
  This covers the null-handle path and the path on which the native result is null,
  since it holds for every handle and every C API.  In \<open>nativeCreateProcessor\<close> the
  two buffers are released after the native create call, whatever handle that call
  returned.
\<close>

theorem utf_buffers_paired:
  "utf_paired (new_events w (snd (nativeCreateProcessor api taggerPath verbalizerPath w))) \<and>
   new_events w (snd (nativeCreateProcessor api taggerPath verbalizerPath w)) =
     [UTF_acquired taggerPath taggerPath, UTF_acquired verbalizerPath verbalizerPath,
      Native (Create_processor taggerPath verbalizerPath),
      UTF_released taggerPath taggerPath, UTF_released verbalizerPath verbalizerPath] \<and>
   utf_paired (new_events w (nativeDestroyProcessor api handle w)) \<and>
   utf_paired (new_events w (snd (nativeNormalize api handle input w))) \<and>
   utf_paired (new_events w (snd (nativeTag api handle input w))) \<and>
   utf_paired (new_events w (snd (nativeVerbalize api handle input w)))"
proof -
  obtain h e where c: "wetext_create_processor api (engine w) taggerPath verbalizerPath = (h, e)"
    by (cases "wetext_create_processor api (engine w) taggerPath verbalizerPath")
  have create: "new_events w (snd (nativeCreateProcessor api taggerPath verbalizerPath w)) =
     [UTF_acquired taggerPath taggerPath, UTF_acquired verbalizerPath verbalizerPath,
      Native (Create_processor taggerPath verbalizerPath),
      UTF_released taggerPath taggerPath, UTF_released verbalizerPath verbalizerPath]"
    using c by (simp add: create_eq)
  have create_paired:
    "utf_paired (new_events w (snd (nativeCreateProcessor api taggerPath verbalizerPath w)))"
    unfolding create by (simp add: utf_paired_def)
  have destroy: "utf_paired (new_events w (nativeDestroyProcessor api handle w))"
    by (cases "handle = 0") (simp_all add: destroy_null destroy_eq utf_paired_def)
  obtain rn en where n: "wetext_normalize api (engine w) handle input = (rn, en)"
    by (cases "wetext_normalize api (engine w) handle input")
  obtain rt et where t: "wetext_tag api (engine w) handle input = (rt, et)"
    by (cases "wetext_tag api (engine w) handle input")
  obtain rv ev where v: "wetext_verbalize api (engine w) handle input = (rv, ev)"
    by (cases "wetext_verbalize api (engine w) handle input")
  have norm: "utf_paired (new_events w (snd (nativeNormalize api handle input w)))"
    using n by (cases "handle = 0"; cases rn)
      (simp_all add: null_handle_normalize normalize_some normalize_none utf_paired_def)
  have tg: "utf_paired (new_events w (snd (nativeTag api handle input w)))"
    using t by (cases "handle = 0"; cases rt)
      (simp_all add: null_handle_tag tag_some tag_none utf_paired_def)
  have vb: "utf_paired (new_events w (snd (nativeVerbalize api handle input w)))"
    using v by (cases "handle = 0"; cases rv)
      (simp_all add: null_handle_verbalize verbalize_some verbalize_none utf_paired_def)
  show ?thesis
    using create create_paired destroy norm tg vb by blast
qed

section \<open>Properties of the engine, and of the binding over it\<close>

lemma session_of_null [simp]: "session_of reg 0 = None"
  by (simp add: session_of_def)

lemma core_normalize:
  "wetext_normalize (core_api rs) reg handle txt =
     (Some (processor_normalize reg handle txt), reg)"
  by (simp add: core_api_def)

lemma core_free: "wetext_free_string (core_api rs) reg r = reg"
  by (simp add: core_api_def)

text \<open>
  Over the engine, \<open>nativeNormalize\<close> returns what the engine's \<open>normalize\<close> computes on
  the handle, and leaves the registry of sessions as it was.
\<close>

lemma core_nativeNormalize:
  "fst (nativeNormalize (core_api rs) handle input w) =
     processor_normalize (engine w) handle input \<and>
   engine (snd (nativeNormalize (core_api rs) handle input w)) = engine w"
proof (cases "handle = 0")
  case True
  then show ?thesis
    by (simp add: null_handle_normalize processor_normalize_def)
next
  case False
  then show ?thesis
    by (simp add: normalize_some [OF False core_normalize] core_free)
qed

lemma no_rule_here_best_match: "no_rule_here G s \<Longrightarrow> best_match G s = None"
  by (induction G) simp_all

lemma tag_unmatched: "no_rule_matches G T \<Longrightarrow> tag G T = map (\<lambda>c. Untagged [c]) T"
  by (induction T) (simp_all add: no_rule_here_best_match)

lemma verbalize_untagged: "verbalize V (map (\<lambda>c. Untagged [c]) T) = T"
  by (induction T) (simp_all add: verbalize_def)

text \<open>A match that the tagger takes is a non-empty prefix of what remains.\<close>

lemma best_match_bounds: "best_match G s = Some (n, c, f) \<Longrightarrow> 0 < n \<and> n \<le> length s"
proof (induction G arbitrary: n c f)
  case Nil
  then show ?case by simp
next
  case (Cons r rs)
  then show ?case
    by (auto simp: rule_match_def split: option.splits if_splits prod.splits)
qed

text \<open>
  C3.  For a valid session, that is a handle under which the registry holds a loaded
  grammar pair, and every input text, \<open>nativeNormalize\<close> over the engine returns the
  verbalization, under the session's verbalizer grammar, of the span sequence that the
  tagger produces under the session's tagger grammar; the pipeline is that composition;
  and the call leaves the engine's state as it was.
\<close>

theorem normalize_is_composition:
  assumes "session_of (engine w) handle = Some s"
  shows "fst (nativeNormalize (core_api rs) handle input w) =
           verbalize (verbalizer_grammar s) (tag (tagger_grammar s) input) \<and>
         normalize_text (tagger_grammar s, verbalizer_grammar s) input =
           verbalize (verbalizer_grammar s) (tag (tagger_grammar s) input) \<and>
         engine (snd (nativeNormalize (core_api rs) handle input w)) = engine w"
  using assms by (simp add: core_nativeNormalize processor_normalize_def normalize_text_def)

theorem normalize_is_composition_witness:
  "session_of (engine date_world) 1 = Some date_session \<and>
   tag (tagger_grammar date_session) ''Meeting on 2024-03-15 confirmed'' =
     map (\<lambda>c. Untagged [c]) ''Meeting on '' @
     [Tagged ''DATE'' ''2024-03-15''
        [(''year'', ''2024''), (''month'', ''03''), (''day'', ''15'')]] @
     map (\<lambda>c. Untagged [c]) '' confirmed'' \<and>
   fst (nativeNormalize (core_api no_files) 1 ''Meeting on 2024-03-15 confirmed'' date_world) =
     ''Meeting on 03/15/2024 confirmed''"
proof -
  have h: "session_of (engine date_world) 1 = Some date_session"
    by (simp add: session_of_def date_world_def)
  have t: "tag (tagger_grammar date_session) ''Meeting on 2024-03-15 confirmed'' =
     map (\<lambda>c. Untagged [c]) ''Meeting on '' @
     [Tagged ''DATE'' ''2024-03-15''
        [(''year'', ''2024''), (''month'', ''03''), (''day'', ''15'')]] @
     map (\<lambda>c. Untagged [c]) '' confirmed''"
    by code_simp
  have v: "verbalize (verbalizer_grammar date_session)
             (tag (tagger_grammar date_session) ''Meeting on 2024-03-15 confirmed'') =
           ''Meeting on 03/15/2024 confirmed''"
    by code_simp
  show ?thesis
    using h t v
      normalize_is_composition [OF h, of no_files "''Meeting on 2024-03-15 confirmed''"]
    by simp
qed

text \<open>
  C4.  For every tagger grammar and every input text, the texts of the spans that the
  tagger produces, taken without their categories and fields and concatenated in
  order, are the input text.
\<close>

theorem tag_lossless: "concat (map span_text (tag G T)) = T"
proof (induction G T rule: tag.induct)
  case (1 G)
  show ?case by simp
next
  case (2 G c cs)
  show ?case
  proof (cases "best_match G (c # cs)")
    case None
    with 2 show ?thesis by simp
  next
    case (Some m)
    obtain n cat f where m: "m = (n, cat, f)" by (cases m)
    with 2 Some show ?thesis by simp
  qed
qed

text \<open>
  C5.  When the resource loader fails on the tagger path or on the verbalizer path,
  \<open>nativeCreateProcessor\<close> over the engine returns the null handle 0 (the failure is a
  value of the loader, and nothing but the handle crosses the boundary), registers no
  session, and \<open>nativeNormalize\<close> called next on the returned handle returns the empty
  string.
\<close>

theorem create_failure_gives_null_handle:
  assumes "isl (load (files rs) (parse_tagger rs) taggerPath) \<or>
           isl (load (files rs) (parse_verbalizer rs) verbalizerPath)"
  shows "fst (nativeCreateProcessor (core_api rs) taggerPath verbalizerPath w) = 0 \<and>
         engine (snd (nativeCreateProcessor (core_api rs) taggerPath verbalizerPath w)) =
           engine w \<and>
         fst (nativeNormalize (core_api rs)
               (fst (nativeCreateProcessor (core_api rs) taggerPath verbalizerPath w)) input
               (snd (nativeCreateProcessor (core_api rs) taggerPath verbalizerPath w))) = ''''"
proof -
  have c: "wetext_create_processor (core_api rs) (engine w) taggerPath verbalizerPath =
             (0, engine w)"
    using assms by (auto simp: core_api_def create_processor_def split: sum.splits)
  show ?thesis
    by (simp add: create_eq [OF c] null_handle_normalize)
qed

theorem create_failure_gives_null_handle_witness:
  "load (files no_files) (parse_tagger no_files) ''missing_tagger.fst'' = Inl Not_found \<and>
   fst (nativeCreateProcessor (core_api no_files) ''missing_tagger.fst'' ''verbalizer.fst''
          date_world) = 0 \<and>
   fst (nativeNormalize (core_api no_files)
          (fst (nativeCreateProcessor (core_api no_files) ''missing_tagger.fst''
                 ''verbalizer.fst'' date_world))
          ''anything''
          (snd (nativeCreateProcessor (core_api no_files) ''missing_tagger.fst''
                 ''verbalizer.fst'' date_world))) = ''''"
proof -
  have l: "load (files no_files) (parse_tagger no_files) ''missing_tagger.fst'' = Inl Not_found"
    by (simp add: load_def no_files_def)
  then have h: "isl (load (files no_files) (parse_tagger no_files) ''missing_tagger.fst'') \<or>
      isl (load (files no_files) (parse_verbalizer no_files) ''verbalizer.fst'')"
    by simp
  show ?thesis
    using l create_failure_gives_null_handle [OF h, of date_world "''anything''"]
    by blast
qed

text \<open>
  C6.  Two invocations of \<open>nativeNormalize\<close> over the engine, one after the other with
  the same handle and the same input text, return the same string: the first leaves
  the engine's state as it found it, and the result is a function of that state, the
  handle and the text.
\<close>

theorem normalize_deterministic:
  "fst (nativeNormalize (core_api rs) handle input
          (snd (nativeNormalize (core_api rs) handle input w))) =
     fst (nativeNormalize (core_api rs) handle input w) \<and>
   engine (snd (nativeNormalize (core_api rs) handle input w)) = engine w"
  by (simp add: core_nativeNormalize)

text \<open>
  C7.  For a valid session and an input text in which no rule of the session's tagger
  grammar matches at any position, the pipeline returns the input text, and so does
  \<open>nativeNormalize\<close> over the engine.
\<close>

theorem unmatched_input_passes_through:
  assumes "session_of (engine w) handle = Some s"
    and "no_rule_matches (tagger_grammar s) T"
  shows "normalize_text (tagger_grammar s, verbalizer_grammar s) T = T \<and>
         fst (nativeNormalize (core_api rs) handle T w) = T"
  using assms
  by (simp add: core_nativeNormalize processor_normalize_def normalize_text_def
      tag_unmatched verbalize_untagged)

theorem unmatched_input_passes_through_witness:
  "session_of (engine date_world) 1 = Some date_session \<and>
   no_rule_matches (tagger_grammar date_session) ''call 555-0100 now'' \<and>
   normalize_text (tagger_grammar date_session, verbalizer_grammar date_session)
     ''call 555-0100 now'' = ''call 555-0100 now'' \<and>
   fst (nativeNormalize (core_api no_files) 1 ''call 555-0100 now'' date_world) =
     ''call 555-0100 now''"
proof -
  have h: "session_of (engine date_world) 1 = Some date_session"
    by (simp add: session_of_def date_world_def)
  have m: "no_rule_matches (tagger_grammar date_session) ''call 555-0100 now''"
    by code_simp
  show ?thesis
    using h m unmatched_input_passes_through [OF h m, of no_files]
    by simp
qed

end
